theory Spec2Isabelle
  imports Complex_Main
begin

section \<open>Data model\<close>

text \<open>
  The music genre classifier of \<^verbatim>\<open>backend/app/main.py\<close> and
  \<^verbatim>\<open>backend/app/utils.py\<close>. Python floats are idealised as the reals: every
  sum, product, quotient and comparison of the source is the exact one here, so a
  statement that holds "up to floating tolerance" in the program holds exactly in the
  model. A Python \<^verbatim>\<open>dict\<close> is an association list in insertion order
  (\<^verbatim>\<open>.items()\<close> and \<^verbatim>\<open>.values()\<close> iterate in that order).
  An exception is a value \<open>Inl e\<close> of the result type. The wall-clock
  \<^verbatim>\<open>timestamp\<close> field of a response is left out.
\<close>

datatype error = ZeroDivisionError | AttributeError | IndexError | TypeError | ScorerError

definition GENRE_LABELS :: "string list" where
  "GENRE_LABELS =
     [''pop'', ''rock'', ''hip_hop'', ''jazz'', ''electronic'',
      ''classical'', ''r_b'', ''country'', ''metal'', ''folk'']"

text \<open>\<^verbatim>\<open>class TrackData(BaseModel)\<close>, as \<^verbatim>\<open>main.py\<close> declares it: ten floats with
  defaults and no range constraint.\<close>

record TrackData =
  track_name :: string
  artists :: string
  album_name :: "string option"
  danceability :: real
  energy :: real
  loudness :: real
  speechiness :: real
  acousticness :: real
  instrumentalness :: real
  liveness :: real
  valence :: real
  tempo :: real
  popularity :: real

text \<open>The \<^verbatim>\<open>Field(ge=..., le=...)\<close> constraints that \<^verbatim>\<open>schemas.py\<close> puts on the
  same ten fields: the declared valid ranges.\<close>

definition TrackData_valid :: "TrackData \<Rightarrow> bool" where
  "TrackData_valid t \<longleftrightarrow>
     0 \<le> danceability t \<and> danceability t \<le> 1 \<and>
     0 \<le> energy t \<and> energy t \<le> 1 \<and>
     -60 \<le> loudness t \<and> loudness t \<le> 0 \<and>
     0 \<le> speechiness t \<and> speechiness t \<le> 1 \<and>
     0 \<le> acousticness t \<and> acousticness t \<le> 1 \<and>
     0 \<le> instrumentalness t \<and> instrumentalness t \<le> 1 \<and>
     0 \<le> liveness t \<and> liveness t \<le> 1 \<and>
     0 \<le> valence t \<and> valence t \<le> 1 \<and>
     60 \<le> tempo t \<and> tempo t \<le> 200 \<and>
     0 \<le> popularity t \<and> popularity t \<le> 100"

text \<open>\<^verbatim>\<open>class PredictionResponse(BaseModel)\<close>. The field \<^verbatim>\<open>artists\<close> is
  \<open>resp_artists\<close> here, since \<open>artists\<close> already names the field of the track.\<close>

record PredictionResponse =
  track :: string
  resp_artists :: string
  predictions :: "(string \<times> real) list"
  top_genres :: "string list"
  confidence :: real
  model_version :: string

text \<open>\<^verbatim>\<open>class BatchPredictionResponse(BaseModel)\<close>; its \<^verbatim>\<open>predictions\<close> field is
  \<open>batch_predictions\<close> here.\<close>

record BatchPredictionResponse =
  batch_predictions :: "PredictionResponse list"
  total_tracks :: nat
  average_confidence :: real

text \<open>\<^verbatim>\<open>np.mean\<close> of a non-empty list of floats.\<close>

definition np_mean :: "real list \<Rightarrow> real" where
  "np_mean xs = sum_list xs / real (length xs)"

section \<open>The demo prediction of main.py\<close>

text \<open>The dictionary \<^verbatim>\<open>base_probs\<close> that \<^verbatim>\<open>demo_predict\<close> builds.\<close>

definition demo_base_probs :: "TrackData \<Rightarrow> (string \<times> real) list" where
  "demo_base_probs t =
     [(''pop'', min 0.7 (danceability t * 0.8 + popularity t * 0.002)),
      (''rock'', min 0.6 (energy t * 0.7 + (1 - danceability t) * 0.3)),
      (''hip_hop'', min 0.5 (speechiness t * 5 + energy t * 0.3)),
      (''jazz'', min 0.4 (acousticness t * 0.6 + (1 - energy t) * 0.2)),
      (''electronic'', min 0.8 (energy t * 0.7 + danceability t * 0.5)),
      (''classical'', min 0.3 (instrumentalness t * 0.8 + acousticness t * 0.4)),
      (''r_b'', min 0.5 (danceability t * 0.6 + valence t * 0.3)),
      (''country'', min 0.4 (acousticness t * 0.5 + valence t * 0.3)),
      (''metal'', min 0.3 (energy t * 0.8 + (1 - valence t) * 0.2)),
      (''folk'', min 0.3 (acousticness t * 0.7 + (1 - energy t) * 0.2))]"

text \<open>\<^verbatim>\<open>demo_predict\<close>: the division by \<^verbatim>\<open>total\<close> has no guard, so a zero total
  raises \<^verbatim>\<open>ZeroDivisionError\<close> in the dictionary comprehension.\<close>

definition demo_predict :: "TrackData \<Rightarrow> error + PredictionResponse" where
  "demo_predict t =
     (let base_probs = demo_base_probs t;
          total = sum_list (map snd base_probs)
      in if total = 0 then Inl ZeroDivisionError
         else
           let preds = map (\<lambda>(genre, prob). (genre, prob / total * 0.8)) base_probs
           in Inr \<lparr>track = track_name t,
                   resp_artists = artists t,
                   predictions = preds,
                   top_genres = map fst (filter (\<lambda>(g, p). p > 0.5) preds),
                   confidence = np_mean (map snd preds),
                   model_version = ''DEMO-MODE''\<rparr>)"

section \<open>The trained path of main.py\<close>

text \<open>
  What \<^verbatim>\<open>MODEL.predict_proba\<close> can hand back, as far as the code inspects it:
  an object without \<^verbatim>\<open>__len__\<close>, or a sized sequence whose entries are a float
  (\<open>Num\<close>), a one-dimensional numpy array of floats (\<open>NdRow\<close>), a Python list of
  floats (\<open>ListRow\<close>), or a numpy array of shape (1, k), a single row wrapped in a
  second dimension (\<open>NdBlock\<close>). A two-dimensional numpy array is a sized sequence of
  \<open>NdRow\<close> entries; the per-class output of a multi-output classifier for one sample
  is a Python list of \<open>NdBlock\<close> entries of shape (1, 2).
\<close>

datatype entry = Num real | NdRow "real list" | ListRow "real list" | NdBlock "real list"

datatype proba = Unsized | Sized "entry list"

text \<open>
  The global \<^verbatim>\<open>MODEL\<close>: \<^verbatim>\<open>None\<close>, the path string it is initialised with (and
  keeps when no model file exists), or a loaded classifier, whose
  \<^verbatim>\<open>predict_proba\<close> maps the feature row to a result or raises.
\<close>

datatype model = PyNone | PyStr string | Classifier "real list \<Rightarrow> error + proba"

definition predict_proba :: "model \<Rightarrow> real list \<Rightarrow> error + proba" where
  "predict_proba m features =
     (case m of
        Classifier f \<Rightarrow> f features
      | _ \<Rightarrow> Inl AttributeError)"

text \<open>\<^verbatim>\<open>prob[1]\<close> on one entry of the returned sequence. On an array of shape
  (1, k) the index 1 is out of bounds for the first axis, of size 1. On a bare float it
  raises as well (\<^verbatim>\<open>IndexError\<close> for a numpy float, \<^verbatim>\<open>TypeError\<close> for a Python
  float; \<^verbatim>\<open>except Exception\<close> treats both alike, and the model has the first).\<close>

fun index1 :: "entry \<Rightarrow> error + real" where
  "index1 (Num x) = Inl IndexError"
| "index1 (NdRow r) = (if 1 < length r then Inr (r ! 1) else Inl IndexError)"
| "index1 (ListRow r) = (if 1 < length r then Inr (r ! 1) else Inl IndexError)"
| "index1 (NdBlock r) = Inl IndexError"

text \<open>The list comprehension \<^verbatim>\<open>[prob[1] for prob in probabilities]\<close>: the first
  entry that cannot be indexed raises.\<close>

fun index1_all :: "entry list \<Rightarrow> error + real list" where
  "index1_all [] = Inr []"
| "index1_all (p # ps) =
     (case index1 p of
        Inl e \<Rightarrow> Inl e
      | Inr x \<Rightarrow> (case index1_all ps of Inl e \<Rightarrow> Inl e | Inr xs \<Rightarrow> Inr (x # xs)))"

text \<open>\<^verbatim>\<open>isinstance(probabilities[0], np.ndarray)\<close>.\<close>

fun isinstance_ndarray :: "entry \<Rightarrow> bool" where
  "isinstance_ndarray (Num x) = False"
| "isinstance_ndarray (NdRow r) = True"
| "isinstance_ndarray (ListRow r) = False"
| "isinstance_ndarray (NdBlock r) = True"

text \<open>The value of \<^verbatim>\<open>probabilities\<close> after the block "Handle different probability
  formats": a one-dimensional array, or a bare float.\<close>

datatype adapted = Arr "real list" | Scal real

text \<open>The block itself. \<open>rnd\<close> is what \<^verbatim>\<open>np.random.rand(len(GENRE_LABELS))\<close> would
  return in this call. The last branch of the inner case is not reached: an entry that
  is not a numpy array is a float or a list.\<close>

definition adapt_probabilities :: "real list \<Rightarrow> proba \<Rightarrow> error + adapted" where
  "adapt_probabilities rnd probabilities =
     (case probabilities of
        Sized (p0 # ps) \<Rightarrow>
          (if isinstance_ndarray p0
           then (case index1_all (p0 # ps) of Inl e \<Rightarrow> Inl e | Inr xs \<Rightarrow> Inr (Arr xs))
           else (case p0 of
                   ListRow r \<Rightarrow> Inr (Arr r)
                 | Num x \<Rightarrow> Inr (Scal x)
                 | _ \<Rightarrow> Inl TypeError))
      | _ \<Rightarrow> Inr (Arr rnd))"

text \<open>The loop \<^verbatim>\<open>for i, genre in enumerate(GENRE_LABELS)\<close>; \<^verbatim>\<open>len\<close> of a bare
  float raises \<^verbatim>\<open>TypeError\<close> in its first round.\<close>

definition predictions_dict :: "adapted \<Rightarrow> error + (string \<times> real) list" where
  "predictions_dict probabilities =
     (case probabilities of
        Scal x \<Rightarrow> Inl TypeError
      | Arr xs \<Rightarrow>
          Inr (map (\<lambda>(i, genre). (genre, if i < length xs then xs ! i else 0))
                 (enumerate 0 GENRE_LABELS)))"

text \<open>The list \<^verbatim>\<open>features\<close> that \<^verbatim>\<open>predict_genres\<close> builds from the track.\<close>

definition track_features :: "TrackData \<Rightarrow> real list" where
  "track_features t =
     [danceability t, energy t, loudness t, speechiness t, acousticness t,
      instrumentalness t, liveness t, valence t, tempo t, popularity t]"

text \<open>The body of the \<^verbatim>\<open>try\<close> block of \<^verbatim>\<open>predict_genres\<close>.\<close>

definition trained_predict :: "model \<Rightarrow> real list \<Rightarrow> TrackData \<Rightarrow> error + PredictionResponse" where
  "trained_predict m rnd t =
     (let features = track_features t
      in case predict_proba m features of
           Inl e \<Rightarrow> Inl e
         | Inr probabilities \<Rightarrow>
             (case adapt_probabilities rnd probabilities of
                Inl e \<Rightarrow> Inl e
              | Inr probs \<Rightarrow>
                  (case predictions_dict probs of
                     Inl e \<Rightarrow> Inl e
                   | Inr preds \<Rightarrow>
                       Inr \<lparr>track = track_name t,
                            resp_artists = artists t,
                            predictions = preds,
                            top_genres = map fst (filter (\<lambda>(genre, prob). prob > 0.5) preds),
                            confidence = np_mean (map snd preds),
                            model_version = ''SVM-v2.0''\<rparr>)))"

text \<open>\<^verbatim>\<open>predict_genres\<close>: demo mode when \<^verbatim>\<open>MODEL is None\<close>; otherwise the
  \<^verbatim>\<open>try\<close> block, and \<^verbatim>\<open>except Exception\<close> falls back to \<^verbatim>\<open>demo_predict\<close>,
  whose own exception is not caught.\<close>

definition predict_genres :: "model \<Rightarrow> real list \<Rightarrow> TrackData \<Rightarrow> error + PredictionResponse" where
  "predict_genres m rnd t =
     (case m of
        PyNone \<Rightarrow> demo_predict t
      | _ \<Rightarrow>
          (case trained_predict m rnd t of
             Inr r \<Rightarrow> Inr r
           | Inl e \<Rightarrow> demo_predict t))"

text \<open>
  \<^verbatim>\<open>predict_genres_batch\<close>: the loop appends each response and adds its confidence;
  an exception of one track ends the request. \<open>rnds i\<close> is the random draw available
  to the call for the track at position \<open>i\<close>.
\<close>

fun batch_loop ::
  "model \<Rightarrow> (nat \<Rightarrow> real list) \<Rightarrow> nat \<Rightarrow> TrackData list \<Rightarrow> PredictionResponse list \<Rightarrow> real
     \<Rightarrow> error + (PredictionResponse list \<times> real)" where
  "batch_loop m rnds i [] preds total_confidence = Inr (preds, total_confidence)"
| "batch_loop m rnds i (t # ts) preds total_confidence =
     (case predict_genres m (rnds i) t of
        Inl e \<Rightarrow> Inl e
      | Inr resp \<Rightarrow>
          batch_loop m rnds (Suc i) ts (preds @ [resp]) (total_confidence + confidence resp))"

definition predict_genres_batch ::
  "model \<Rightarrow> (nat \<Rightarrow> real list) \<Rightarrow> TrackData list \<Rightarrow> error + BatchPredictionResponse" where
  "predict_genres_batch m rnds tracks =
     (case batch_loop m rnds 0 tracks [] 0 of
        Inl e \<Rightarrow> Inl e
      | Inr (preds, total_confidence) \<Rightarrow>
          Inr \<lparr>batch_predictions = preds,
               total_tracks = length preds,
               average_confidence =
                 (if preds \<noteq> [] then total_confidence / real (length preds) else 0)\<rparr>)"

section \<open>utils.py\<close>

text \<open>\<^verbatim>\<open>features.get(key, default)\<close> on a dictionary of floats.\<close>

definition dict_get :: "(string \<times> real) list \<Rightarrow> string \<Rightarrow> real \<Rightarrow> real" where
  "dict_get d k dflt = (case map_of d k of None \<Rightarrow> dflt | Some v \<Rightarrow> v)"


text \<open>\<^verbatim>\<open>max\<close> of a non-empty sequence.\<close>

fun py_max :: "real list \<Rightarrow> real" where
  "py_max [] = 0"
| "py_max (x # xs) = fold max xs x"

text \<open>\<^verbatim>\<open>calculate_confidence\<close>; \<^verbatim>\<open>max\<close> is only called on a non-empty dictionary.\<close>

definition calculate_confidence :: "(string \<times> real) list \<Rightarrow> real" where
  "calculate_confidence preds =
     (if preds = [] then 0
      else
        let max_prob = py_max (map snd preds)
        in if max_prob > 0.7 then min 1 (max_prob * 1.1)
           else if max_prob > 0.3 then max_prob
           else max_prob * 0.8)"

definition valid_ranges :: "(string \<times> real \<times> real) list" where
  "valid_ranges =
     [(''danceability'', 0, 1), (''energy'', 0, 1), (''loudness'', -60, 0),
      (''speechiness'', 0, 1), (''acousticness'', 0, 1), (''instrumentalness'', 0, 1),
      (''liveness'', 0, 1), (''valence'', 0, 1), (''tempo'', 60, 200),
      (''popularity'', 0, 100)]"

text \<open>\<^verbatim>\<open>validate_audio_features\<close>: the loop over \<^verbatim>\<open>features.items()\<close> returns
  \<^verbatim>\<open>False\<close> at the first value outside its range.\<close>

fun validate_audio_features :: "(string \<times> real) list \<Rightarrow> bool" where
  "validate_audio_features [] = True"
| "validate_audio_features ((feature, v) # rest) =
     (case map_of valid_ranges feature of
        Some (min_val, max_val) \<Rightarrow>
          (if \<not> (min_val \<le> v \<and> v \<le> max_val) then False
           else validate_audio_features rest)
      | None \<Rightarrow> validate_audio_features rest)"

text \<open>The dictionary \<^verbatim>\<open>base_probs\<close> of \<^verbatim>\<open>generate_mock_predictions\<close>.\<close>

definition mock_base_probs :: "(string \<times> real) list \<Rightarrow> (string \<times> real) list" where
  "mock_base_probs features =
     [(''pop'', min 0.7 (dict_get features ''danceability'' 0.5 * 0.8
                          + dict_get features ''popularity'' 50 * 0.002)),
      (''rock'', min 0.6 (dict_get features ''energy'' 0.5 * 0.7
                           + (1 - dict_get features ''danceability'' 0.5) * 0.3)),
      (''hip_hop'', min 0.5 (dict_get features ''speechiness'' 0.05 * 5
                              + dict_get features ''energy'' 0.5 * 0.3)),
      (''jazz'', min 0.4 (dict_get features ''acousticness'' 0.1 * 0.6
                           + (1 - dict_get features ''energy'' 0.5) * 0.2)),
      (''electronic'', min 0.8 (dict_get features ''energy'' 0.5 * 0.7
                                 + dict_get features ''danceability'' 0.5 * 0.5)),
      (''classical'', min 0.3 (dict_get features ''instrumentalness'' 0.0 * 0.8
                                + dict_get features ''acousticness'' 0.1 * 0.4)),
      (''r_b'', min 0.5 (dict_get features ''danceability'' 0.5 * 0.6
                          + dict_get features ''valence'' 0.5 * 0.3)),
      (''country'', min 0.4 (dict_get features ''acousticness'' 0.1 * 0.5
                              + dict_get features ''valence'' 0.5 * 0.3)),
      (''metal'', min 0.3 (dict_get features ''energy'' 0.5 * 0.8
                            + (1 - dict_get features ''valence'' 0.5) * 0.2)),
      (''folk'', min 0.3 (dict_get features ''acousticness'' 0.1 * 0.7
                           + (1 - dict_get features ''energy'' 0.5) * 0.2))]"

text \<open>\<^verbatim>\<open>generate_mock_predictions\<close>; the division is guarded by \<^verbatim>\<open>total > 0\<close>, so
  with float values the \<^verbatim>\<open>except\<close> branch is not reached.\<close>

definition generate_mock_predictions :: "(string \<times> real) list \<Rightarrow> (string \<times> real) list" where
  "generate_mock_predictions features =
     (let base_probs = mock_base_probs features;
          total = sum_list (map snd base_probs)
      in if total > 0 then map (\<lambda>(genre, prob). (genre, prob / total * 0.8)) base_probs
         else map (\<lambda>genre. (genre, 0.08)) (map fst base_probs))"

section \<open>Concrete inputs\<close>

text \<open>The example request of \<^verbatim>\<open>schemas.py\<close> (\<^verbatim>\<open>schema_extra\<close>), as a track and as a
  feature dictionary.\<close>

definition example_track :: TrackData where
  "example_track =
     \<lparr>track_name = ''Blinding Lights'', artists = ''The Weeknd'',
      album_name = Some ''After Hours'',
      danceability = 0.8, energy = 0.7, loudness = -5.2, speechiness = 0.1,
      acousticness = 0.2, instrumentalness = 0.0, liveness = 0.1, valence = 0.6,
      tempo = 120.0, popularity = 95.0\<rparr>"

definition example_features :: "(string \<times> real) list" where
  "example_features =
     [(''danceability'', 0.8), (''energy'', 0.7), (''loudness'', -5.2),
      (''speechiness'', 0.1), (''acousticness'', 0.2), (''instrumentalness'', 0.0),
      (''liveness'', 0.1), (''valence'', 0.6), (''tempo'', 120.0), (''popularity'', 95.0)]"

text \<open>Two tracks whose popularity is below the declared range, which the
  \<^verbatim>\<open>TrackData\<close> of \<^verbatim>\<open>main.py\<close> accepts: their raw scores sum to zero and to
  a negative number.\<close>

definition zero_sum_track :: TrackData where
  "zero_sum_track =
     \<lparr>track_name = ''t'', artists = ''a'', album_name = None,
      danceability = 0, energy = 0, loudness = -10, speechiness = 0,
      acousticness = 0, instrumentalness = 0, liveness = 0.1, valence = 1,
      tempo = 120, popularity = -650\<rparr>"

definition negative_sum_track :: TrackData where
  "negative_sum_track =
     \<lparr>track_name = ''t'', artists = ''a'', album_name = None,
      danceability = 0, energy = 0, loudness = -10, speechiness = 0,
      acousticness = 0, instrumentalness = 0, liveness = 0.1, valence = 1,
      tempo = 120, popularity = -1000\<rparr>"

text \<open>The same two inputs as feature dictionaries.\<close>

definition zero_sum_features :: "(string \<times> real) list" where
  "zero_sum_features =
     [(''danceability'', 0), (''energy'', 0), (''loudness'', -10), (''speechiness'', 0),
      (''acousticness'', 0), (''instrumentalness'', 0), (''liveness'', 0.1), (''valence'', 1),
      (''tempo'', 120), (''popularity'', -650)]"

definition negative_sum_features :: "(string \<times> real) list" where
  "negative_sum_features =
     [(''danceability'', 0), (''energy'', 0), (''loudness'', -10), (''speechiness'', 0),
      (''acousticness'', 0), (''instrumentalness'', 0), (''liveness'', 0.1), (''valence'', 1),
      (''tempo'', 120), (''popularity'', -1000)]"

text \<open>The value \<^verbatim>\<open>MODEL\<close> has when the module is loaded.\<close>

definition initial_MODEL :: model where
  "initial_MODEL = PyStr ''backend/models/svm_model.pkl''"

text \<open>Classifiers for the examples: one that raises; one that returns an empty
  sequence; one that returns a 1 x 10 numpy array, as a multi-class
  \<^verbatim>\<open>predict_proba\<close> does for one sample; one that returns the same row as a list of
  one Python list; one that returns ten one-dimensional numpy pairs; one that returns
  the same pairs as arrays of shape (1, 2); and two constant rows.\<close>

definition raising_model :: model where
  "raising_model = Classifier (\<lambda>features. Inl ScorerError)"

definition empty_output_model :: model where
  "empty_output_model = Classifier (\<lambda>features. Inr (Sized []))"

definition example_row :: "real list" where
  "example_row = [0.05, 0.6, 0.1, 0.05, 0.05, 0.05, 0.04, 0.03, 0.02, 0.01]"

definition single_row_model :: model where
  "single_row_model = Classifier (\<lambda>features. Inr (Sized [NdRow example_row]))"

definition list_row_model :: model where
  "list_row_model = Classifier (\<lambda>features. Inr (Sized [ListRow example_row]))"

definition pairs_model :: model where
  "pairs_model = Classifier (\<lambda>features. Inr (Sized
     [NdRow [0.95, 0.05], NdRow [0.4, 0.6], NdRow [0.9, 0.1], NdRow [0.95, 0.05],
      NdRow [0.95, 0.05], NdRow [0.95, 0.05], NdRow [0.96, 0.04], NdRow [0.97, 0.03],
      NdRow [0.98, 0.02], NdRow [0.99, 0.01]]))"

definition pair_blocks_model :: model where
  "pair_blocks_model = Classifier (\<lambda>features. Inr (Sized
     [NdBlock [0.95, 0.05], NdBlock [0.4, 0.6], NdBlock [0.9, 0.1], NdBlock [0.95, 0.05],
      NdBlock [0.95, 0.05], NdBlock [0.95, 0.05], NdBlock [0.96, 0.04], NdBlock [0.97, 0.03],
      NdBlock [0.98, 0.02], NdBlock [0.99, 0.01]]))"

definition half_model :: model where
  "half_model = Classifier (\<lambda>features. Inr (Sized
     [ListRow [0.5, 0.5, 0.5, 0.5, 0.5, 0.5, 0.5, 0.5, 0.5, 0.5]]))"

definition high_model :: model where
  "high_model = Classifier (\<lambda>features. Inr (Sized
     [ListRow [0.9, 0.9, 0.9, 0.9, 0.9, 0.9, 0.9, 0.9, 0.9, 0.9]]))"

text \<open>A draw of \<^verbatim>\<open>np.random.rand(10)\<close>.\<close>

definition example_rnd :: "real list" where
  "example_rnd = [0.37, 0.95, 0.73, 0.6, 0.16, 0.15, 0.06, 0.87, 0.6, 0.71]"

text \<open>A batch of two tracks with different names, and the draws available to the calls
  of a batch.\<close>

definition example_batch :: "TrackData list" where
  "example_batch = [example_track, example_track\<lparr>track_name := ''Save Your Tears''\<rparr>]"

definition example_rnds :: "nat \<Rightarrow> real list" where
  "example_rnds = (\<lambda>i. example_rnd)"

section \<open>Auxiliary facts\<close>

lemma rock_jazz_pos_aux:
  fixes e d a :: real
  assumes "0 \<le> e" "e \<le> 1" "0 \<le> d" "d \<le> 1" "0 \<le> a"
  shows "0 < min 0.6 (e * 0.7 + (1 - d) * 0.3) + min 0.4 (a * 0.6 + (1 - e) * 0.2)"
proof (cases "e = 0")
  case True
  have "0 < min 0.4 (a * 0.6 + (1 - e) * 0.2)" using True assms by simp
  moreover have "0 \<le> min 0.6 (e * 0.7 + (1 - d) * 0.3)" using assms by simp
  ultimately show ?thesis by linarith
next
  case False
  then have "0 < e" using assms by simp
  then have "0 < min 0.6 (e * 0.7 + (1 - d) * 0.3)" using assms by (simp add: add_pos_nonneg)
  moreover have "0 \<le> min 0.4 (a * 0.6 + (1 - e) * 0.2)" using assms by simp
  ultimately show ?thesis by linarith
qed

lemma raw_scores_aux:
  fixes d e s a i v p :: real
  assumes "0 \<le> d" "d \<le> 1" "0 \<le> e" "e \<le> 1" "0 \<le> s" "0 \<le> a" "0 \<le> i"
    "0 \<le> v" "v \<le> 1" "0 \<le> p"
  shows "(\<lambda>xs. (\<forall>x \<in> set xs. 0 \<le> x) \<and> 0 < sum_list xs)
     [min 0.7 (d * 0.8 + p * 0.002), min 0.6 (e * 0.7 + (1 - d) * 0.3),
      min 0.5 (s * 5 + e * 0.3), min 0.4 (a * 0.6 + (1 - e) * 0.2),
      min 0.8 (e * 0.7 + d * 0.5), min 0.3 (i * 0.8 + a * 0.4),
      min 0.5 (d * 0.6 + v * 0.3), min 0.4 (a * 0.5 + v * 0.3),
      min 0.3 (e * 0.8 + (1 - v) * 0.2), min 0.3 (a * 0.7 + (1 - e) * 0.2)]"
proof -
  define pop where "pop = min 0.7 (d * 0.8 + p * 0.002)"
  define rock where "rock = min 0.6 (e * 0.7 + (1 - d) * 0.3)"
  define hip_hop where "hip_hop = min 0.5 (s * 5 + e * 0.3)"
  define jazz where "jazz = min 0.4 (a * 0.6 + (1 - e) * 0.2)"
  define electronic where "electronic = min 0.8 (e * 0.7 + d * 0.5)"
  define classical where "classical = min 0.3 (i * 0.8 + a * 0.4)"
  define r_b where "r_b = min 0.5 (d * 0.6 + v * 0.3)"
  define country where "country = min 0.4 (a * 0.5 + v * 0.3)"
  define metal where "metal = min 0.3 (e * 0.8 + (1 - v) * 0.2)"
  define folk where "folk = min 0.3 (a * 0.7 + (1 - e) * 0.2)"
  have nn: "0 \<le> pop" "0 \<le> rock" "0 \<le> hip_hop" "0 \<le> jazz" "0 \<le> electronic"
    "0 \<le> classical" "0 \<le> r_b" "0 \<le> country" "0 \<le> metal" "0 \<le> folk"
    unfolding pop_def rock_def hip_hop_def jazz_def electronic_def classical_def
      r_b_def country_def metal_def folk_def using assms by simp_all
  have rj: "0 < rock + jazz"
    unfolding rock_def jazz_def using assms by (intro rock_jazz_pos_aux)
  have "(\<forall>x \<in> set [pop, rock, hip_hop, jazz, electronic, classical, r_b, country, metal, folk].
           0 \<le> x)
        \<and> 0 < sum_list [pop, rock, hip_hop, jazz, electronic, classical, r_b, country, metal, folk]"
    using nn rj by simp
  then show ?thesis
    unfolding pop_def rock_def hip_hop_def jazz_def electronic_def classical_def
      r_b_def country_def metal_def folk_def .
qed

lemma demo_scores:
  assumes "TrackData_valid t"
  shows "(\<forall>x \<in> set (map snd (demo_base_probs t)). 0 \<le> x)
           \<and> 0 < sum_list (map snd (demo_base_probs t))"
proof -
  have eq: "map snd (demo_base_probs t) =
     [min 0.7 (danceability t * 0.8 + popularity t * 0.002),
      min 0.6 (energy t * 0.7 + (1 - danceability t) * 0.3),
      min 0.5 (speechiness t * 5 + energy t * 0.3),
      min 0.4 (acousticness t * 0.6 + (1 - energy t) * 0.2),
      min 0.8 (energy t * 0.7 + danceability t * 0.5),
      min 0.3 (instrumentalness t * 0.8 + acousticness t * 0.4),
      min 0.5 (danceability t * 0.6 + valence t * 0.3),
      min 0.4 (acousticness t * 0.5 + valence t * 0.3),
      min 0.3 (energy t * 0.8 + (1 - valence t) * 0.2),
      min 0.3 (acousticness t * 0.7 + (1 - energy t) * 0.2)]"
    unfolding demo_base_probs_def list.map snd_conv by (rule refl)
  show ?thesis unfolding eq
    using assms unfolding TrackData_valid_def by (intro raw_scores_aux) simp_all
qed

lemma validate_Cons:
  "validate_audio_features ((f, w) # rest) \<longleftrightarrow>
     (case map_of valid_ranges f of Some (lo, hi) \<Rightarrow> lo \<le> w \<and> w \<le> hi | None \<Rightarrow> True)
     \<and> validate_audio_features rest"
  by (auto split: option.split prod.split)

lemma validate_lookup:
  "validate_audio_features fs \<Longrightarrow> map_of fs k = Some v \<Longrightarrow>
     map_of valid_ranges k = Some (lo, hi) \<Longrightarrow> lo \<le> v \<and> v \<le> hi"
proof (induction fs)
  case Nil
  then show ?case by simp
next
  case (Cons a rest)
  obtain f w where a: "a = (f, w)" by (cases a)
  have v: "(case map_of valid_ranges f of Some (lo, hi) \<Rightarrow> lo \<le> w \<and> w \<le> hi | None \<Rightarrow> True)"
    and r: "validate_audio_features rest"
    using Cons.prems(1) unfolding a validate_Cons by blast+
  show ?case
  proof (cases "f = k")
    case True
    then have "w = v" using Cons.prems(2) a by simp
    then show ?thesis using v True Cons.prems(3) by simp
  next
    case False
    then have "map_of rest k = Some v" using Cons.prems(2) a by simp
    then show ?thesis using Cons.IH r Cons.prems(3) by blast
  qed
qed

lemma validate_dict_get:
  assumes "validate_audio_features fs" "map_of valid_ranges k = Some (lo, hi)"
    "lo \<le> dflt" "dflt \<le> hi"
  shows "lo \<le> dict_get fs k dflt \<and> dict_get fs k dflt \<le> hi"
proof (cases "map_of fs k")
  case None
  then show ?thesis using assms(3,4) by (simp add: dict_get_def)
next
  case (Some v)
  then show ?thesis using validate_lookup[OF assms(1) Some assms(2)] by (simp add: dict_get_def)
qed

lemma mock_scores:
  assumes "validate_audio_features fs"
  shows "(\<forall>x \<in> set (map snd (mock_base_probs fs)). 0 \<le> x)
           \<and> 0 < sum_list (map snd (mock_base_probs fs))"
proof -
  have eq: "map snd (mock_base_probs fs) =
     [min 0.7 (dict_get fs ''danceability'' 0.5 * 0.8 + dict_get fs ''popularity'' 50 * 0.002),
      min 0.6 (dict_get fs ''energy'' 0.5 * 0.7 + (1 - dict_get fs ''danceability'' 0.5) * 0.3),
      min 0.5 (dict_get fs ''speechiness'' 0.05 * 5 + dict_get fs ''energy'' 0.5 * 0.3),
      min 0.4 (dict_get fs ''acousticness'' 0.1 * 0.6 + (1 - dict_get fs ''energy'' 0.5) * 0.2),
      min 0.8 (dict_get fs ''energy'' 0.5 * 0.7 + dict_get fs ''danceability'' 0.5 * 0.5),
      min 0.3 (dict_get fs ''instrumentalness'' 0.0 * 0.8 + dict_get fs ''acousticness'' 0.1 * 0.4),
      min 0.5 (dict_get fs ''danceability'' 0.5 * 0.6 + dict_get fs ''valence'' 0.5 * 0.3),
      min 0.4 (dict_get fs ''acousticness'' 0.1 * 0.5 + dict_get fs ''valence'' 0.5 * 0.3),
      min 0.3 (dict_get fs ''energy'' 0.5 * 0.8 + (1 - dict_get fs ''valence'' 0.5) * 0.2),
      min 0.3 (dict_get fs ''acousticness'' 0.1 * 0.7 + (1 - dict_get fs ''energy'' 0.5) * 0.2)]"
    unfolding mock_base_probs_def list.map snd_conv by (rule refl)
  have d: "0 \<le> dict_get fs ''danceability'' 0.5 \<and> dict_get fs ''danceability'' 0.5 \<le> 1"
    by (rule validate_dict_get[OF assms]) (simp_all add: valid_ranges_def)
  have e: "0 \<le> dict_get fs ''energy'' 0.5 \<and> dict_get fs ''energy'' 0.5 \<le> 1"
    by (rule validate_dict_get[OF assms]) (simp_all add: valid_ranges_def)
  have s: "0 \<le> dict_get fs ''speechiness'' 0.05 \<and> dict_get fs ''speechiness'' 0.05 \<le> 1"
    by (rule validate_dict_get[OF assms]) (simp_all add: valid_ranges_def)
  have a: "0 \<le> dict_get fs ''acousticness'' 0.1 \<and> dict_get fs ''acousticness'' 0.1 \<le> 1"
    by (rule validate_dict_get[OF assms]) (simp_all add: valid_ranges_def)
  have i: "0 \<le> dict_get fs ''instrumentalness'' 0.0 \<and> dict_get fs ''instrumentalness'' 0.0 \<le> 1"
    by (rule validate_dict_get[OF assms]) (simp_all add: valid_ranges_def)
  have v: "0 \<le> dict_get fs ''valence'' 0.5 \<and> dict_get fs ''valence'' 0.5 \<le> 1"
    by (rule validate_dict_get[OF assms]) (simp_all add: valid_ranges_def)
  have p: "0 \<le> dict_get fs ''popularity'' 50 \<and> dict_get fs ''popularity'' 50 \<le> 100"
    by (rule validate_dict_get[OF assms]) (simp_all add: valid_ranges_def)
  show ?thesis unfolding eq
    using d e s a i v p by (intro raw_scores_aux) blast+
qed

lemma sum_list_scaled:
  fixes total c :: real
  shows "sum_list (map snd (map (\<lambda>(g, p). (g, p / total * c)) bp))
           = sum_list (map snd bp) / total * c"
  by (induction bp) (auto simp: add_divide_distrib distrib_right)

lemma scaled_bounds:
  fixes c :: real
  assumes nn: "\<forall>x \<in> set (map snd bp). 0 \<le> x" and pos: "0 < sum_list (map snd bp)" and c: "0 \<le> c"
    and mem: "(g, q) \<in> set (map (\<lambda>(g, p). (g, p / sum_list (map snd bp) * c)) bp)"
  shows "0 \<le> q \<and> q \<le> c"
proof -
  obtain p where p: "(g, p) \<in> set bp" and q: "q = p / sum_list (map snd bp) * c"
    using mem by auto
  have p0: "0 \<le> p" using nn p by force
  have "p \<in> set (map snd bp)" using p by force
  then have ple: "p \<le> sum_list (map snd bp)"
    using nn by (intro member_le_sum_list) auto
  have r0: "0 \<le> p / sum_list (map snd bp)" using p0 pos by simp
  have r1: "p / sum_list (map snd bp) \<le> 1" using ple pos by simp
  have "p / sum_list (map snd bp) * c \<le> 1 * c" using r1 c by (rule mult_right_mono)
  moreover have "0 \<le> p / sum_list (map snd bp) * c" using r0 c by (rule mult_nonneg_nonneg)
  ultimately show ?thesis unfolding q by simp
qed

lemma demo_predict_nonzero:
  assumes "sum_list (map snd (demo_base_probs t)) \<noteq> 0"
  shows "demo_predict t =
     Inr \<lparr>track = track_name t, resp_artists = artists t,
          predictions = map (\<lambda>(genre, prob).
              (genre, prob / sum_list (map snd (demo_base_probs t)) * 0.8)) (demo_base_probs t),
          top_genres = map fst (filter (\<lambda>(g, p). p > 0.5)
             (map (\<lambda>(genre, prob).
              (genre, prob / sum_list (map snd (demo_base_probs t)) * 0.8)) (demo_base_probs t))),
          confidence = np_mean (map snd (map (\<lambda>(genre, prob).
              (genre, prob / sum_list (map snd (demo_base_probs t)) * 0.8)) (demo_base_probs t))),
          model_version = ''DEMO-MODE''\<rparr>"
  using assms unfolding demo_predict_def Let_def by (simp only: if_False)

lemma scaled_bounds_all:
  fixes c :: real
  assumes "\<forall>x \<in> set (map snd bp). 0 \<le> x" "0 < sum_list (map snd bp)" "0 \<le> c"
  shows "\<forall>(g, q) \<in> set (map (\<lambda>(g, p). (g, p / sum_list (map snd bp) * c)) bp).
           0 \<le> q \<and> q \<le> c"
  using scaled_bounds[OF assms] by blast


section \<open>The heuristic scores\<close>

text \<open>
  Claim C10. For every track whose ten feature fields lie in the declared valid ranges
  (danceability, energy, speechiness, acousticness, instrumentalness, liveness and valence
  in [0,1], loudness in [-60,0], tempo in [60,200], popularity in [0,100]), the sum of
  the ten raw scores of \<^verbatim>\<open>demo_predict\<close> is strictly positive. So the unguarded
  division by that sum does not divide by zero, and \<^verbatim>\<open>demo_predict\<close> returns a
  response.
\<close>

theorem demo_total_positive_in_valid_ranges:
  assumes "TrackData_valid t"
  shows "0 < sum_list (map snd (demo_base_probs t)) \<and> (\<exists>r. demo_predict t = Inr r)"
proof -
  have pos: "0 < sum_list (map snd (demo_base_probs t))"
    using demo_scores[OF assms] by blast
  then have "sum_list (map snd (demo_base_probs t)) \<noteq> 0" by simp
  from demo_predict_nonzero[OF this] pos show ?thesis by blast
qed

theorem demo_total_positive_witness:
  "TrackData_valid example_track
   \<and> 0 < sum_list (map snd (demo_base_probs example_track))
   \<and> (\<exists>r. demo_predict example_track = Inr r)"
proof -
  have v: "TrackData_valid example_track"
    by (simp add: TrackData_valid_def example_track_def)
  from demo_total_positive_in_valid_ranges[OF v] v show ?thesis by blast
qed



lemma generate_mock_pos:
  assumes "0 < sum_list (map snd (mock_base_probs fs))"
  shows "generate_mock_predictions fs =
     map (\<lambda>(genre, prob). (genre, prob / sum_list (map snd (mock_base_probs fs)) * 0.8))
       (mock_base_probs fs)"
  using assms unfolding generate_mock_predictions_def Let_def by (simp only: if_True)

text \<open>
  Claim C2. For every input whose feature values lie in the declared valid ranges, the
  heuristic probabilities (each raw score divided by the sum of all ten, times 0.8) sum
  to at most 0.8, and each of them lies in [0, 0.8]. This holds for
  \<^verbatim>\<open>demo_predict\<close> on a track within the ranges, and for
  \<^verbatim>\<open>generate_mock_predictions\<close> on a feature dictionary that
  \<^verbatim>\<open>validate_audio_features\<close> accepts.
\<close>

theorem heuristic_probabilities_bounded:
  "(TrackData_valid t \<longrightarrow>
      (\<exists>r. demo_predict t = Inr r
         \<and> sum_list (map snd (predictions r)) \<le> 0.8
         \<and> (\<forall>(g, p) \<in> set (predictions r). 0 \<le> p \<and> p \<le> 0.8)))
   \<and> (validate_audio_features fs \<longrightarrow>
        sum_list (map snd (generate_mock_predictions fs)) \<le> 0.8
        \<and> (\<forall>(g, p) \<in> set (generate_mock_predictions fs). 0 \<le> p \<and> p \<le> 0.8))"
proof (intro conjI impI)
  assume v: "TrackData_valid t"
  let ?total = "sum_list (map snd (demo_base_probs t))"
  let ?preds = "map (\<lambda>(genre, prob). (genre, prob / ?total * 0.8)) (demo_base_probs t)"
  have nn: "\<forall>x \<in> set (map snd (demo_base_probs t)). 0 \<le> x" and pos: "0 < ?total"
    using demo_scores[OF v] by blast+
  have nz: "?total \<noteq> 0" using pos by simp
  have s: "sum_list (map snd ?preds) \<le> 0.8"
    unfolding sum_list_scaled using nz by simp
  have b: "\<forall>(g, p) \<in> set ?preds. 0 \<le> p \<and> p \<le> 0.8"
    by (rule scaled_bounds_all[OF nn pos]) simp
  show "\<exists>r. demo_predict t = Inr r
         \<and> sum_list (map snd (predictions r)) \<le> 0.8
         \<and> (\<forall>(g, p) \<in> set (predictions r). 0 \<le> p \<and> p \<le> 0.8)"
    unfolding demo_predict_nonzero[OF nz] using s b by simp
next
  assume v: "validate_audio_features fs"
  let ?total = "sum_list (map snd (mock_base_probs fs))"
  have nn: "\<forall>x \<in> set (map snd (mock_base_probs fs)). 0 \<le> x" and pos: "0 < ?total"
    using mock_scores[OF v] by blast+
  have nz: "?total \<noteq> 0" using pos by simp
  show "sum_list (map snd (generate_mock_predictions fs)) \<le> 0.8"
    unfolding generate_mock_pos[OF pos] sum_list_scaled using nz by simp
  show "\<forall>(g, p) \<in> set (generate_mock_predictions fs). 0 \<le> p \<and> p \<le> 0.8"
    unfolding generate_mock_pos[OF pos] by (rule scaled_bounds_all[OF nn pos]) simp
qed

theorem heuristic_probabilities_bounded_witness:
  "TrackData_valid example_track \<and> validate_audio_features example_features
   \<and> (\<exists>r. demo_predict example_track = Inr r
         \<and> sum_list (map snd (predictions r)) \<le> 0.8
         \<and> (\<forall>(g, p) \<in> set (predictions r). 0 \<le> p \<and> p \<le> 0.8))
   \<and> sum_list (map snd (generate_mock_predictions example_features)) \<le> 0.8
   \<and> list_all (\<lambda>(g, p). 0 \<le> p \<and> p \<le> 0.8) (generate_mock_predictions example_features)"
proof -
  have v: "TrackData_valid example_track"
    by (simp add: TrackData_valid_def example_track_def)
  have w: "validate_audio_features example_features"
    by (simp add: example_features_def valid_ranges_def)
  from heuristic_probabilities_bounded[of example_track example_features] v w
  show ?thesis unfolding list_all_iff by blast
qed

section \<open>The normalizer of utils.py\<close>








section \<open>The shape of a response\<close>

lemma demo_predict_Inr:
  assumes "demo_predict t = Inr r"
  shows "sum_list (map snd (demo_base_probs t)) \<noteq> 0
    \<and> predictions r = map (\<lambda>(genre, prob).
              (genre, prob / sum_list (map snd (demo_base_probs t)) * 0.8)) (demo_base_probs t)
    \<and> top_genres r = map fst (filter (\<lambda>(g, p). p > 0.5) (predictions r))
    \<and> confidence r = np_mean (map snd (predictions r))
    \<and> model_version r = ''DEMO-MODE''
    \<and> track r = track_name t \<and> resp_artists r = artists t"
proof (cases "sum_list (map snd (demo_base_probs t)) = 0")
  case True
  then have "demo_predict t = Inl ZeroDivisionError"
    unfolding demo_predict_def Let_def by (simp only: if_True refl)
  with assms show ?thesis by simp
next
  case False
  from demo_predict_nonzero[OF False] assms
  have r: "r = \<lparr>track = track_name t, resp_artists = artists t,
          predictions = map (\<lambda>(genre, prob).
              (genre, prob / sum_list (map snd (demo_base_probs t)) * 0.8)) (demo_base_probs t),
          top_genres = map fst (filter (\<lambda>(g, p). p > 0.5)
             (map (\<lambda>(genre, prob).
              (genre, prob / sum_list (map snd (demo_base_probs t)) * 0.8)) (demo_base_probs t))),
          confidence = np_mean (map snd (map (\<lambda>(genre, prob).
              (genre, prob / sum_list (map snd (demo_base_probs t)) * 0.8)) (demo_base_probs t))),
          model_version = ''DEMO-MODE''\<rparr>"
    by (simp only: sum.inject)
  show ?thesis
    apply (intro conjI)
          apply (rule False)
         apply (subst r, simp only: PredictionResponse.select_convs)+
    done
qed

lemma predictions_dict_keys:
  assumes "predictions_dict a = Inr preds"
  shows "map fst preds = GENRE_LABELS"
proof (cases a)
  case (Arr xs)
  with assms have "preds = map (\<lambda>(i, genre). (genre, if i < length xs then xs ! i else 0))
                 (enumerate 0 GENRE_LABELS)"
    unfolding predictions_dict_def by simp
  then show ?thesis by (simp add: GENRE_LABELS_def)
next
  case (Scal x)
  with assms show ?thesis unfolding predictions_dict_def by simp
qed

lemma trained_predict_Inr:
  assumes "trained_predict m rnd t = Inr r"
  shows "(\<exists>pr a. predict_proba m (track_features t) = Inr pr
            \<and> adapt_probabilities rnd pr = Inr a
            \<and> predictions_dict a = Inr (predictions r))
    \<and> top_genres r = map fst (filter (\<lambda>(genre, prob). prob > 0.5) (predictions r))
    \<and> confidence r = np_mean (map snd (predictions r))
    \<and> model_version r = ''SVM-v2.0''
    \<and> track r = track_name t \<and> resp_artists r = artists t"
proof -
  obtain pr where 1: "predict_proba m (track_features t) = Inr pr"
    using assms unfolding trained_predict_def Let_def
    by (cases "predict_proba m (track_features t)") simp_all
  obtain a where 2: "adapt_probabilities rnd pr = Inr a"
    using assms unfolding trained_predict_def Let_def 1
    by (cases "adapt_probabilities rnd pr") simp_all
  obtain preds where 3: "predictions_dict a = Inr preds"
    using assms unfolding trained_predict_def Let_def 1
    by (cases "predictions_dict a") (simp_all add: 2)
  have r: "r = \<lparr>track = track_name t, resp_artists = artists t, predictions = preds,
       top_genres = map fst (filter (\<lambda>(genre, prob). prob > 0.5) preds),
       confidence = np_mean (map snd preds), model_version = ''SVM-v2.0''\<rparr>"
    using assms unfolding trained_predict_def Let_def
    by (simp only: 1 2 3 sum.case sum.inject)
  have p: "predictions r = preds" by (subst r, simp only: PredictionResponse.select_convs)
  show ?thesis
    apply (intro conjI)
        apply (rule exI[of _ pr], rule exI[of _ a], simp only: 1 2 3 p)
       apply (subst r, simp only: PredictionResponse.select_convs p)+
    done
qed

lemma predict_genres_cases:
  assumes "predict_genres m rnd t = Inr r"
  shows "demo_predict t = Inr r \<or> trained_predict m rnd t = Inr r"
  using assms unfolding predict_genres_def
  by (cases m; cases "trained_predict m rnd t") simp_all

lemma response_shape:
  assumes "predict_genres m rnd t = Inr r"
  shows "map fst (predictions r) = GENRE_LABELS
    \<and> top_genres r = map fst (filter (\<lambda>(genre, prob). prob > 0.5) (predictions r))
    \<and> confidence r = np_mean (map snd (predictions r))"
proof -
  from predict_genres_cases[OF assms] show ?thesis
  proof
    assume d: "demo_predict t = Inr r"
    note s = demo_predict_Inr[OF d]
    have "map fst (predictions r) = GENRE_LABELS"
      using s by (simp add: demo_base_probs_def GENRE_LABELS_def)
    then show ?thesis using s by blast
  next
    assume d: "trained_predict m rnd t = Inr r"
    note s = trained_predict_Inr[OF d]
    have "map fst (predictions r) = GENRE_LABELS"
      using s predictions_dict_keys by blast
    then show ?thesis using s by blast
  qed
qed

section \<open>Top genres and confidence of a response\<close>

lemma half_model_response:
  "predict_genres half_model [] example_track =
     Inr \<lparr>track = ''Blinding Lights'', resp_artists = ''The Weeknd'',
          predictions = [(''pop'', 1/2), (''rock'', 1/2), (''hip_hop'', 1/2), (''jazz'', 1/2),
            (''electronic'', 1/2), (''classical'', 1/2), (''r_b'', 1/2), (''country'', 1/2),
            (''metal'', 1/2), (''folk'', 1/2)],
          top_genres = [], confidence = 1/2, model_version = ''SVM-v2.0''\<rparr>"
  by (simp add: predict_genres_def half_model_def trained_predict_def predict_proba_def
      adapt_probabilities_def predictions_dict_def GENRE_LABELS_def track_features_def
      np_mean_def example_track_def)

lemma high_model_response:
  "predict_genres high_model [] example_track =
     Inr \<lparr>track = ''Blinding Lights'', resp_artists = ''The Weeknd'',
          predictions = [(''pop'', 9/10), (''rock'', 9/10), (''hip_hop'', 9/10), (''jazz'', 9/10),
            (''electronic'', 9/10), (''classical'', 9/10), (''r_b'', 9/10), (''country'', 9/10),
            (''metal'', 9/10), (''folk'', 9/10)],
          top_genres = [''pop'', ''rock'', ''hip_hop'', ''jazz'', ''electronic'',
            ''classical'', ''r_b'', ''country'', ''metal'', ''folk''],
          confidence = 9/10, model_version = ''SVM-v2.0''\<rparr>"
  by (simp add: predict_genres_def high_model_def trained_predict_def predict_proba_def
      adapt_probabilities_def predictions_dict_def GENRE_LABELS_def track_features_def
      np_mean_def example_track_def)

lemma list_row_model_response:
  "predict_genres list_row_model [] example_track =
     Inr \<lparr>track = ''Blinding Lights'', resp_artists = ''The Weeknd'',
          predictions = [(''pop'', 1/20), (''rock'', 3/5), (''hip_hop'', 1/10), (''jazz'', 1/20),
            (''electronic'', 1/20), (''classical'', 1/20), (''r_b'', 1/25), (''country'', 3/100),
            (''metal'', 1/50), (''folk'', 1/100)],
          top_genres = [''rock''], confidence = 1/10, model_version = ''SVM-v2.0''\<rparr>"
  by (simp add: predict_genres_def list_row_model_def example_row_def trained_predict_def
      predict_proba_def adapt_probabilities_def predictions_dict_def GENRE_LABELS_def
      track_features_def np_mean_def example_track_def)

lemma example_demo_response:
  "demo_predict example_track =
     Inr \<lparr>track = ''Blinding Lights'', resp_artists = ''The Weeknd'',
          predictions = [(''pop'', 56/409), (''rock'', 44/409), (''hip_hop'', 40/409),
            (''jazz'', 72/2045), (''electronic'', 64/409), (''classical'', 32/2045),
            (''r_b'', 40/409), (''country'', 112/2045), (''metal'', 24/409), (''folk'', 16/409)],
          top_genres = [], confidence = 2/25, model_version = ''DEMO-MODE''\<rparr>"
  by (simp add: demo_predict_def demo_base_probs_def np_mean_def example_track_def)


lemma py_max_Max:
  assumes "xs \<noteq> []"
  shows "py_max xs = Max (set xs)"
proof (cases xs)
  case Nil
  then show ?thesis using assms by simp
next
  case (Cons a list)
  show ?thesis unfolding Cons by (simp only: py_max.simps Max.set_eq_fold)
qed

text \<open>
  Claim C5. For every response of a single-track prediction, on either path, the top
  genres are exactly the genre labels whose probability in the response is strictly
  greater than 0.5, in the order of the labels. When every probability equals 0.5 the
  selection is empty. No minimum or maximum count is enforced: the selection is empty
  for the classifier whose ten probabilities are 0.5, and holds all ten labels for the
  one whose ten probabilities are 0.9.
\<close>

theorem top_genres_strictly_above_half:
  assumes "predict_genres m rnd t = Inr r"
  shows "top_genres r = map fst (filter (\<lambda>(genre, prob). prob > 0.5) (predictions r))
    \<and> map fst (predictions r) = GENRE_LABELS
    \<and> set (top_genres r) = {g. \<exists>p. (g, p) \<in> set (predictions r) \<and> p > 0.5}
    \<and> ((\<forall>(g, p) \<in> set (predictions r). p = 0.5) \<longrightarrow> top_genres r = [])"
proof -
  note s = response_shape[OF assms]
  have t: "top_genres r = map fst (filter (\<lambda>(genre, prob). prob > 0.5) (predictions r))"
    using s by blast
  have "set (top_genres r) = {g. \<exists>p. (g, p) \<in> set (predictions r) \<and> p > 0.5}"
    unfolding t by force
  moreover have "top_genres r = []" if "\<forall>(g, p) \<in> set (predictions r). p = 0.5"
  proof -
    have f: "filter (\<lambda>(genre, prob). prob > 0.5) (predictions r) = []"
      using that by (auto simp: filter_empty_conv)
    show ?thesis unfolding t f by simp
  qed
  ultimately show ?thesis using s t by blast
qed

theorem top_genres_strictly_above_half_witness:
  "(\<exists>r. predict_genres half_model [] example_track = Inr r
        \<and> list_all (\<lambda>(g, p). p = 0.5) (predictions r)
        \<and> top_genres r = []
        \<and> set (top_genres r) = {g. \<exists>p. (g, p) \<in> set (predictions r) \<and> p > 0.5})
   \<and> (\<exists>r. predict_genres high_model [] example_track = Inr r
        \<and> top_genres r = GENRE_LABELS
        \<and> set (top_genres r) = {g. \<exists>p. (g, p) \<in> set (predictions r) \<and> p > 0.5})"
proof (intro conjI)
  let ?r = "\<lparr>track = ''Blinding Lights'', resp_artists = ''The Weeknd'',
          predictions = [(''pop'', 1/2), (''rock'', 1/2), (''hip_hop'', 1/2), (''jazz'', 1/2),
            (''electronic'', 1/2), (''classical'', 1/2), (''r_b'', 1/2), (''country'', 1/2),
            (''metal'', 1/2), (''folk'', 1/2)],
          top_genres = [], confidence = 1/2, model_version = ''SVM-v2.0''\<rparr>"
  have all: "\<forall>(g, p) \<in> set (predictions ?r). p = 0.5" by simp
  from top_genres_strictly_above_half[OF half_model_response] all
  have "top_genres ?r = []
     \<and> set (top_genres ?r) = {g. \<exists>p. (g, p) \<in> set (predictions ?r) \<and> p > 0.5}"
    by blast
  moreover have "list_all (\<lambda>(g, p). p = 0.5) (predictions ?r)" by simp
  ultimately show "\<exists>r. predict_genres half_model [] example_track = Inr r
        \<and> list_all (\<lambda>(g, p). p = 0.5) (predictions r)
        \<and> top_genres r = []
        \<and> set (top_genres r) = {g. \<exists>p. (g, p) \<in> set (predictions r) \<and> p > 0.5}"
    using half_model_response by blast
next
  let ?r = "\<lparr>track = ''Blinding Lights'', resp_artists = ''The Weeknd'',
          predictions = [(''pop'', 9/10), (''rock'', 9/10), (''hip_hop'', 9/10), (''jazz'', 9/10),
            (''electronic'', 9/10), (''classical'', 9/10), (''r_b'', 9/10), (''country'', 9/10),
            (''metal'', 9/10), (''folk'', 9/10)],
          top_genres = [''pop'', ''rock'', ''hip_hop'', ''jazz'', ''electronic'',
            ''classical'', ''r_b'', ''country'', ''metal'', ''folk''],
          confidence = 9/10, model_version = ''SVM-v2.0''\<rparr>"
  from top_genres_strictly_above_half[OF high_model_response]
  have "set (top_genres ?r) = {g. \<exists>p. (g, p) \<in> set (predictions ?r) \<and> p > 0.5}"
    by blast
  moreover have "top_genres ?r = GENRE_LABELS" by (simp add: GENRE_LABELS_def)
  ultimately show "\<exists>r. predict_genres high_model [] example_track = Inr r
        \<and> top_genres r = GENRE_LABELS
        \<and> set (top_genres r) = {g. \<exists>p. (g, p) \<in> set (predictions r) \<and> p > 0.5}"
    using high_model_response by blast
qed

text \<open>
  Claim C1, as stated, fails: the confidence of a response is not the tiered function of
  its maximum probability. For the example track the demo path returns confidence 2/25
  where the tiered function gives 256/2045, and the trained path with the list-row
  classifier returns 1/10 where the tiered function gives 3/5.
\<close>

theorem confidence_not_tiered_counterexample:
  "map_sum id confidence (predict_genres PyNone [] example_track) = Inr (2/25)
   \<and> map_sum id (calculate_confidence \<circ> predictions) (predict_genres PyNone [] example_track)
       = Inr (256/2045)
   \<and> map_sum id confidence (predict_genres list_row_model [] example_track) = Inr (1/10)
   \<and> map_sum id (calculate_confidence \<circ> predictions)
         (predict_genres list_row_model [] example_track) = Inr (3/5)
   \<and> map_sum id confidence (predict_genres PyNone [] example_track)
       \<noteq> map_sum id (calculate_confidence \<circ> predictions)
            (predict_genres PyNone [] example_track)
   \<and> map_sum id confidence (predict_genres list_row_model [] example_track)
       \<noteq> map_sum id (calculate_confidence \<circ> predictions)
            (predict_genres list_row_model [] example_track)"
proof -
  have d: "predict_genres PyNone [] example_track = demo_predict example_track"
    by (simp add: predict_genres_def)
  have 1: "map_sum id confidence (predict_genres PyNone [] example_track) = Inr (2/25)"
    unfolding d example_demo_response by simp
  have 2: "map_sum id (calculate_confidence \<circ> predictions)
      (predict_genres PyNone [] example_track) = Inr (256/2045)"
    unfolding d example_demo_response by (simp add: calculate_confidence_def)
  have 3: "map_sum id confidence (predict_genres list_row_model [] example_track) = Inr (1/10)"
    unfolding list_row_model_response by simp
  have 4: "map_sum id (calculate_confidence \<circ> predictions)
         (predict_genres list_row_model [] example_track) = Inr (3/5)"
    unfolding list_row_model_response by (simp add: calculate_confidence_def)
  show ?thesis unfolding 1 2 3 4 by simp
qed

text \<open>
  Claim C1, amended. For every single-track prediction that returns, on the trained
  path or the demo path, the response holds ten probabilities and its confidence is
  their arithmetic mean (\<^verbatim>\<open>np.mean\<close>). The tiered function of the maximum
  probability (min(1, m * 1.1) when m > 0.7, m when 0.3 < m <= 0.7, m * 0.8 when
  m <= 0.3, and 0 for an empty mapping) is what \<^verbatim>\<open>calculate_confidence\<close> of
  \<^verbatim>\<open>utils.py\<close> computes, which the prediction endpoints do not call.
\<close>

theorem confidence_is_mean_of_probabilities:
  "(predict_genres m rnd t = Inr r \<longrightarrow>
      length (predictions r) = 10
      \<and> confidence r = sum_list (map snd (predictions r)) / 10)
   \<and> calculate_confidence preds =
       (if preds = [] then 0
        else if Max (snd ` set preds) > 0.7 then min 1 (Max (snd ` set preds) * 1.1)
        else if Max (snd ` set preds) > 0.3 then Max (snd ` set preds)
        else Max (snd ` set preds) * 0.8)"
proof (intro conjI impI)
  assume a: "predict_genres m rnd t = Inr r"
  note s = response_shape[OF a]
  have "length (map fst (predictions r)) = 10" using s by (simp add: GENRE_LABELS_def)
  then have l: "length (predictions r) = 10" by simp
  then show "length (predictions r) = 10" .
  have "confidence r = np_mean (map snd (predictions r))" using s by blast
  then show "confidence r = sum_list (map snd (predictions r)) / 10"
    unfolding np_mean_def using l by simp
next
  show "calculate_confidence preds =
       (if preds = [] then 0
        else if Max (snd ` set preds) > 0.7 then min 1 (Max (snd ` set preds) * 1.1)
        else if Max (snd ` set preds) > 0.3 then Max (snd ` set preds)
        else Max (snd ` set preds) * 0.8)"
  proof (cases "preds = []")
    case True
    then show ?thesis by (simp add: calculate_confidence_def)
  next
    case False
    then have "py_max (map snd preds) = Max (snd ` set preds)"
      using py_max_Max[of "map snd preds"] by simp
    then show ?thesis using False unfolding calculate_confidence_def Let_def by simp
  qed
qed

theorem confidence_is_mean_of_probabilities_witness:
  "\<exists>r. predict_genres list_row_model [] example_track = Inr r
     \<and> length (predictions r) = 10
     \<and> confidence r = sum_list (map snd (predictions r)) / 10
     \<and> confidence r = 1/10"
proof -
  let ?r = "\<lparr>track = ''Blinding Lights'', resp_artists = ''The Weeknd'',
          predictions = [(''pop'', 1/20), (''rock'', 3/5), (''hip_hop'', 1/10), (''jazz'', 1/20),
            (''electronic'', 1/20), (''classical'', 1/20), (''r_b'', 1/25), (''country'', 3/100),
            (''metal'', 1/50), (''folk'', 1/100)],
          top_genres = [''rock''], confidence = 1/10, model_version = ''SVM-v2.0''\<rparr>"
  from confidence_is_mean_of_probabilities[of list_row_model "[]" example_track ?r "[]"]
    list_row_model_response
  have "length (predictions ?r) = 10
     \<and> confidence ?r = sum_list (map snd (predictions ?r)) / 10" by blast
  moreover have "confidence ?r = 1/10" by simp
  ultimately show ?thesis using list_row_model_response by blast
qed

section \<open>The zero-sum guard\<close>

lemma mock_base_probs_keys: "map fst (mock_base_probs fs) = GENRE_LABELS"
  by (simp add: mock_base_probs_def GENRE_LABELS_def)

lemma generate_mock_nonpos:
  assumes "sum_list (map snd (mock_base_probs fs)) \<le> 0"
  shows "generate_mock_predictions fs = map (\<lambda>genre. (genre, 0.08)) GENRE_LABELS"
proof -
  have "\<not> 0 < sum_list (map snd (mock_base_probs fs))" using assms by simp
  then have "generate_mock_predictions fs
      = map (\<lambda>genre. (genre, 0.08)) (map fst (mock_base_probs fs))"
    unfolding generate_mock_predictions_def Let_def by (simp only: if_False)
  then show ?thesis unfolding mock_base_probs_keys .
qed

text \<open>
  Claim C6 says that for every input whose ten raw scores sum to a value less than or
  equal to 0, the heuristic scorer raises no division error and returns 0.08 for each of
  the ten genres. \<^verbatim>\<open>generate_mock_predictions\<close> does so (lemma
  \<open>generate_mock_nonpos\<close>), but \<^verbatim>\<open>demo_predict\<close>, the heuristic path of the
  endpoints, has no such guard. For the track with popularity -650 the raw scores sum
  to 0 and \<^verbatim>\<open>demo_predict\<close>, hence \<^verbatim>\<open>predict_genres\<close>, raises
  \<^verbatim>\<open>ZeroDivisionError\<close>; for the track with popularity -1000 they sum to -7/10 and
  the returned values are 16/7, -12/35, 0, -8/35, ... instead of 0.08 each. On the same
  two inputs \<^verbatim>\<open>generate_mock_predictions\<close> returns 0.08 for each genre.
\<close>

theorem demo_predict_unguarded_division:
  "sum_list (map snd (demo_base_probs zero_sum_track)) = 0
   \<and> demo_predict zero_sum_track = Inl ZeroDivisionError
   \<and> predict_genres PyNone [] zero_sum_track = Inl ZeroDivisionError
   \<and> predict_genres initial_MODEL [] zero_sum_track = Inl ZeroDivisionError
   \<and> sum_list (map snd (demo_base_probs negative_sum_track)) = - (7/10)
   \<and> map_sum id predictions (demo_predict negative_sum_track)
       = Inr [(''pop'', 16/7), (''rock'', - (12/35)), (''hip_hop'', 0), (''jazz'', - (8/35)),
              (''electronic'', 0), (''classical'', 0), (''r_b'', - (12/35)),
              (''country'', - (12/35)), (''metal'', 0), (''folk'', - (8/35))]
   \<and> generate_mock_predictions zero_sum_features
       = [(''pop'', 0.08), (''rock'', 0.08), (''hip_hop'', 0.08), (''jazz'', 0.08),
          (''electronic'', 0.08), (''classical'', 0.08), (''r_b'', 0.08),
          (''country'', 0.08), (''metal'', 0.08), (''folk'', 0.08)]
   \<and> generate_mock_predictions negative_sum_features
       = [(''pop'', 0.08), (''rock'', 0.08), (''hip_hop'', 0.08), (''jazz'', 0.08),
          (''electronic'', 0.08), (''classical'', 0.08), (''r_b'', 0.08),
          (''country'', 0.08), (''metal'', 0.08), (''folk'', 0.08)]"
proof (intro conjI)
  show z: "sum_list (map snd (demo_base_probs zero_sum_track)) = 0"
    by (simp add: demo_base_probs_def zero_sum_track_def)
  show d: "demo_predict zero_sum_track = Inl ZeroDivisionError"
    unfolding demo_predict_def Let_def z by (simp only: if_True refl)
  show "predict_genres PyNone [] zero_sum_track = Inl ZeroDivisionError"
    unfolding predict_genres_def d by simp
  show "predict_genres initial_MODEL [] zero_sum_track = Inl ZeroDivisionError"
    unfolding predict_genres_def d
    by (simp add: initial_MODEL_def trained_predict_def predict_proba_def)
  show "sum_list (map snd (demo_base_probs negative_sum_track)) = - (7/10)"
    by (simp add: demo_base_probs_def negative_sum_track_def)
  show "map_sum id predictions (demo_predict negative_sum_track)
       = Inr [(''pop'', 16/7), (''rock'', - (12/35)), (''hip_hop'', 0), (''jazz'', - (8/35)),
              (''electronic'', 0), (''classical'', 0), (''r_b'', - (12/35)),
              (''country'', - (12/35)), (''metal'', 0), (''folk'', - (8/35))]"
    by (simp add: demo_predict_def demo_base_probs_def negative_sum_track_def)
  show "generate_mock_predictions zero_sum_features
       = [(''pop'', 0.08), (''rock'', 0.08), (''hip_hop'', 0.08), (''jazz'', 0.08),
          (''electronic'', 0.08), (''classical'', 0.08), (''r_b'', 0.08),
          (''country'', 0.08), (''metal'', 0.08), (''folk'', 0.08)]"
    by (simp add: generate_mock_predictions_def mock_base_probs_def zero_sum_features_def
        dict_get_def)
  show "generate_mock_predictions negative_sum_features
       = [(''pop'', 0.08), (''rock'', 0.08), (''hip_hop'', 0.08), (''jazz'', 0.08),
          (''electronic'', 0.08), (''classical'', 0.08), (''r_b'', 0.08),
          (''country'', 0.08), (''metal'', 0.08), (''folk'', 0.08)]"
    by (simp add: generate_mock_predictions_def mock_base_probs_def negative_sum_features_def
        dict_get_def)
qed

section \<open>The adapter of the trained path\<close>

lemma predictions_dict_by_position:
  "predictions_dict (Arr xs) =
     Inr (map (\<lambda>i. (GENRE_LABELS ! i, if i < length xs then xs ! i else 0)) [0..<10])"
  by (simp add: predictions_dict_def GENRE_LABELS_def upt_rec)

lemma adapt_list_row:
  "adapt_probabilities rnd (Sized (ListRow r # ps)) = Inr (Arr r)"
  by (simp add: adapt_probabilities_def)

lemma adapt_single_nd_row:
  "adapt_probabilities rnd (Sized [NdRow r]) =
     (if 1 < length r then Inr (Arr [r ! 1]) else Inl IndexError)"
  by (simp add: adapt_probabilities_def)

text \<open>
  Claim C4 says that the adapter handles both output shapes: a single row of per-genre
  probabilities mapped onto the genre labels by position, and a list of per-class
  probability pairs of which the positive-class entry is taken; and that a genre beyond
  the length of the score array gets 0.0. The last part holds (lemma
  \<open>predictions_dict_by_position\<close>), and a row given as a Python list is mapped by
  position. But a single row given as a numpy array of shape (1, 10), which is what
  \<^verbatim>\<open>predict_proba\<close> of a classifier returns for one sample, passes the test
  \<^verbatim>\<open>isinstance(probabilities[0], np.ndarray)\<close> and is read as a list of pairs:
  \<^verbatim>\<open>pop\<close> gets the second entry of the row and every other genre 0.0. And pairs
  given as arrays of shape (1, 2), the per-class output for one sample, raise
  \<^verbatim>\<open>IndexError\<close> at \<^verbatim>\<open>prob[1]\<close>, so the request falls back to the demo
  prediction. Only pairs given as one-dimensional arrays are read as the claim says.
\<close>

theorem single_row_array_read_as_pairs:
  "map_sum id predictions (predict_genres single_row_model [] example_track)
     = Inr [(''pop'', 3/5), (''rock'', 0), (''hip_hop'', 0), (''jazz'', 0),
            (''electronic'', 0), (''classical'', 0), (''r_b'', 0), (''country'', 0),
            (''metal'', 0), (''folk'', 0)]
   \<and> map_sum id predictions (predict_genres list_row_model [] example_track)
     = Inr [(''pop'', 1/20), (''rock'', 3/5), (''hip_hop'', 1/10), (''jazz'', 1/20),
            (''electronic'', 1/20), (''classical'', 1/20), (''r_b'', 1/25),
            (''country'', 3/100), (''metal'', 1/50), (''folk'', 1/100)]
   \<and> trained_predict pair_blocks_model [] example_track = Inl IndexError
   \<and> predict_genres pair_blocks_model [] example_track = demo_predict example_track
   \<and> map_sum id predictions (predict_genres pairs_model [] example_track)
     = Inr [(''pop'', 1/20), (''rock'', 3/5), (''hip_hop'', 1/10), (''jazz'', 1/20),
            (''electronic'', 1/20), (''classical'', 1/20), (''r_b'', 1/25),
            (''country'', 3/100), (''metal'', 1/50), (''folk'', 1/100)]"
proof (intro conjI)
  show "map_sum id predictions (predict_genres single_row_model [] example_track)
     = Inr [(''pop'', 3/5), (''rock'', 0), (''hip_hop'', 0), (''jazz'', 0),
            (''electronic'', 0), (''classical'', 0), (''r_b'', 0), (''country'', 0),
            (''metal'', 0), (''folk'', 0)]"
    by (simp add: predict_genres_def single_row_model_def example_row_def trained_predict_def
        predict_proba_def adapt_probabilities_def predictions_dict_def GENRE_LABELS_def)
  show "map_sum id predictions (predict_genres list_row_model [] example_track)
     = Inr [(''pop'', 1/20), (''rock'', 3/5), (''hip_hop'', 1/10), (''jazz'', 1/20),
            (''electronic'', 1/20), (''classical'', 1/20), (''r_b'', 1/25),
            (''country'', 3/100), (''metal'', 1/50), (''folk'', 1/100)]"
    unfolding list_row_model_response by simp
  show t: "trained_predict pair_blocks_model [] example_track = Inl IndexError"
    by (simp add: pair_blocks_model_def trained_predict_def predict_proba_def
        adapt_probabilities_def)
  show "predict_genres pair_blocks_model [] example_track = demo_predict example_track"
    unfolding predict_genres_def t by (simp add: pair_blocks_model_def)
  show "map_sum id predictions (predict_genres pairs_model [] example_track)
     = Inr [(''pop'', 1/20), (''rock'', 3/5), (''hip_hop'', 1/10), (''jazz'', 1/20),
            (''electronic'', 1/20), (''classical'', 1/20), (''r_b'', 1/25),
            (''country'', 3/100), (''metal'', 1/50), (''folk'', 1/100)]"
    by (simp add: predict_genres_def pairs_model_def trained_predict_def
        predict_proba_def adapt_probabilities_def predictions_dict_def GENRE_LABELS_def)
qed

section \<open>Fallback to the demo prediction\<close>

lemma demo_predict_returns:
  assumes "TrackData_valid t"
  shows "\<exists>r. demo_predict t = Inr r \<and> model_version r = ''DEMO-MODE''"
proof -
  have "sum_list (map snd (demo_base_probs t)) \<noteq> 0"
    using demo_scores[OF assms] by simp
  from demo_predict_nonzero[OF this] obtain r where r: "demo_predict t = Inr r" by blast
  from demo_predict_Inr[OF r] r show ?thesis by blast
qed

lemma predict_genres_fallback:
  assumes "trained_predict m rnd t = Inl e"
  shows "predict_genres m rnd t = demo_predict t"
  using assms unfolding predict_genres_def by (cases m) simp_all

lemma predict_genres_trained:
  assumes "trained_predict m rnd t = Inr r"
  shows "predict_genres m rnd t = Inr r"
proof (cases m)
  case PyNone
  with assms show ?thesis
    by (simp add: trained_predict_def predict_proba_def)
next
  case (PyStr s)
  with assms show ?thesis by (simp add: predict_genres_def)
next
  case (Classifier f)
  with assms show ?thesis by (simp add: predict_genres_def)
qed

lemma index1_all_fails:
  assumes "\<exists>q \<in> set ps. index1 q = Inl IndexError"
  shows "\<exists>e. index1_all ps = Inl e"
  using assms
proof (induction ps)
  case Nil
  then show ?case by simp
next
  case (Cons p ps)
  show ?case
  proof (cases "index1 p")
    case (Inl e)
    then show ?thesis by simp
  next
    case (Inr x)
    with Cons.prems have "\<exists>q \<in> set ps. index1 q = Inl IndexError" by auto
    from Cons.IH[OF this] Inr show ?thesis by auto
  qed
qed

lemma trained_predict_scorer_raises:
  assumes "predict_proba m (track_features t) = Inl e"
  shows "trained_predict m rnd t = Inl e"
  using assms unfolding trained_predict_def Let_def by simp

lemma trained_predict_scalar_first:
  assumes "predict_proba m (track_features t) = Inr (Sized (Num x # ps))"
  shows "trained_predict m rnd t = Inl TypeError"
  using assms unfolding trained_predict_def Let_def
  by (simp add: adapt_probabilities_def predictions_dict_def)

lemma trained_predict_unindexable:
  assumes "predict_proba m (track_features t) = Inr (Sized (p0 # qs))"
    and "isinstance_ndarray p0"
    and "\<exists>q \<in> set (p0 # qs). index1 q = Inl IndexError"
  shows "\<exists>e. trained_predict m rnd t = Inl e"
proof -
  from index1_all_fails[OF assms(3)] obtain e where e: "index1_all (p0 # qs) = Inl e" ..
  have "adapt_probabilities rnd (Sized (p0 # qs)) = Inl e"
    unfolding adapt_probabilities_def using assms(2) e by simp
  then have "trained_predict m rnd t = Inl e"
    unfolding trained_predict_def Let_def using assms(1) by simp
  then show ?thesis ..
qed

lemma predictions_dict_full:
  assumes "length xs = 10"
  shows "\<exists>preds. predictions_dict (Arr xs) = Inr preds \<and> map snd preds = xs"
proof -
  have "map snd (map (\<lambda>i. (GENRE_LABELS ! i, if i < length xs then xs ! i else 0)) [0..<10])
          = map (\<lambda>i. xs ! i) [0..<length xs]"
    unfolding assms by simp
  also have "\<dots> = xs" by (rule map_nth)
  finally show ?thesis unfolding predictions_dict_by_position by blast
qed

lemma trained_predict_random:
  assumes "predict_proba m (track_features t) = Inr Unsized
           \<or> predict_proba m (track_features t) = Inr (Sized [])"
    and "length rnd = 10"
  shows "\<exists>r. trained_predict m rnd t = Inr r \<and> map snd (predictions r) = rnd
           \<and> model_version r = ''SVM-v2.0''"
proof -
  from predictions_dict_full[OF assms(2)] obtain preds
    where p: "predictions_dict (Arr rnd) = Inr preds" and s: "map snd preds = rnd" by blast
  have a: "\<exists>pr. predict_proba m (track_features t) = Inr pr
              \<and> adapt_probabilities rnd pr = Inr (Arr rnd)"
    using assms(1) by (auto simp: adapt_probabilities_def)
  then obtain pr where 1: "predict_proba m (track_features t) = Inr pr"
    and 2: "adapt_probabilities rnd pr = Inr (Arr rnd)" by blast
  have "trained_predict m rnd t =
      Inr \<lparr>track = track_name t, resp_artists = artists t, predictions = preds,
       top_genres = map fst (filter (\<lambda>(genre, prob). prob > 0.5) preds),
       confidence = np_mean (map snd preds), model_version = ''SVM-v2.0''\<rparr>"
    unfolding trained_predict_def Let_def by (simp only: 1 2 p sum.case)
  then show ?thesis using s by simp
qed


lemma empty_output_response:
  "predict_genres empty_output_model example_rnd example_track =
     Inr \<lparr>track = ''Blinding Lights'', resp_artists = ''The Weeknd'',
          predictions = [(''pop'', 37/100), (''rock'', 19/20), (''hip_hop'', 73/100),
            (''jazz'', 3/5), (''electronic'', 4/25), (''classical'', 3/20), (''r_b'', 3/50),
            (''country'', 87/100), (''metal'', 3/5), (''folk'', 71/100)],
          top_genres = [''rock'', ''hip_hop'', ''jazz'', ''country'', ''metal'', ''folk''],
          confidence = 13/25, model_version = ''SVM-v2.0''\<rparr>"
  by (simp add: predict_genres_def empty_output_model_def trained_predict_def predict_proba_def
      adapt_probabilities_def predictions_dict_def GENRE_LABELS_def track_features_def
      np_mean_def example_track_def example_rnd_def)

lemma list_row_trained_response:
  "trained_predict list_row_model [] example_track =
     Inr \<lparr>track = ''Blinding Lights'', resp_artists = ''The Weeknd'',
          predictions = [(''pop'', 1/20), (''rock'', 3/5), (''hip_hop'', 1/10), (''jazz'', 1/20),
            (''electronic'', 1/20), (''classical'', 1/20), (''r_b'', 1/25), (''country'', 3/100),
            (''metal'', 1/50), (''folk'', 1/100)],
          top_genres = [''rock''], confidence = 1/10, model_version = ''SVM-v2.0''\<rparr>"
  by (simp add: list_row_model_def example_row_def trained_predict_def
      predict_proba_def adapt_probabilities_def predictions_dict_def GENRE_LABELS_def
      track_features_def np_mean_def example_track_def)

text \<open>
  Claim C3, as stated, fails for one kind of malformed scorer output. When
  \<^verbatim>\<open>predict_proba\<close> returns an empty sequence for the example track, which lies
  within the declared ranges, \<^verbatim>\<open>predict_genres\<close> does not return the heuristic
  result: it returns the random draw of \<^verbatim>\<open>np.random.rand\<close> as probabilities, tagged
  \<^verbatim>\<open>SVM-v2.0\<close>.
\<close>

theorem empty_scorer_output_counterexample:
  "TrackData_valid example_track
   \<and> predict_proba empty_output_model (track_features example_track) = Inr (Sized [])
   \<and> map_sum id model_version (predict_genres empty_output_model example_rnd example_track)
       = Inr ''SVM-v2.0''
   \<and> map_sum id (map snd \<circ> predictions)
         (predict_genres empty_output_model example_rnd example_track) = Inr example_rnd
   \<and> map_sum id model_version (demo_predict example_track) = Inr ''DEMO-MODE''
   \<and> predict_genres empty_output_model example_rnd example_track \<noteq> demo_predict example_track"
proof (intro conjI)
  show "TrackData_valid example_track"
    by (simp add: TrackData_valid_def example_track_def)
  show "predict_proba empty_output_model (track_features example_track) = Inr (Sized [])"
    by (simp add: predict_proba_def empty_output_model_def)
  show "map_sum id model_version (predict_genres empty_output_model example_rnd example_track)
       = Inr ''SVM-v2.0''"
    unfolding empty_output_response by simp
  show "map_sum id (map snd \<circ> predictions)
         (predict_genres empty_output_model example_rnd example_track) = Inr example_rnd"
    unfolding empty_output_response by (simp add: example_rnd_def)
  show "map_sum id model_version (demo_predict example_track) = Inr ''DEMO-MODE''"
    unfolding example_demo_response by simp
  show "predict_genres empty_output_model example_rnd example_track \<noteq> demo_predict example_track"
    unfolding empty_output_response example_demo_response by simp
qed

text \<open>
  Claim C3, amended. For every track within the declared ranges, if the trained scorer
  raises (or \<^verbatim>\<open>MODEL\<close> has no \<^verbatim>\<open>predict_proba\<close>), or returns a sequence whose first
  entry is a bare float, or a sequence whose first entry is a numpy array and one of
  whose entries has no index 1, then \<^verbatim>\<open>predict_genres\<close> returns the response of
  \<^verbatim>\<open>demo_predict\<close>, tagged \<^verbatim>\<open>DEMO-MODE\<close>, and no error. Every response of the
  trained path is tagged \<^verbatim>\<open>SVM-v2.0\<close>, which differs from \<^verbatim>\<open>DEMO-MODE\<close>. An
  output without a length or of length 0 is not treated as a failure: the response then
  carries the ten values of \<^verbatim>\<open>np.random.rand\<close> as probabilities and the tag
  \<^verbatim>\<open>SVM-v2.0\<close>.
\<close>

theorem fallback_to_demo_on_scorer_failure:
  "(TrackData_valid t \<and>
      (predict_proba m (track_features t) = Inl e
       \<or> predict_proba m (track_features t) = Inr (Sized (Num x # ps))
       \<or> (predict_proba m (track_features t) = Inr (Sized (p0 # qs)) \<and> isinstance_ndarray p0
            \<and> (\<exists>q \<in> set (p0 # qs). index1 q = Inl IndexError)))
    \<longrightarrow> (\<exists>r. predict_genres m rnd t = Inr r \<and> demo_predict t = Inr r
              \<and> model_version r = ''DEMO-MODE''))
   \<and> (trained_predict m rnd t = Inr r' \<longrightarrow>
        predict_genres m rnd t = Inr r' \<and> model_version r' = ''SVM-v2.0''
        \<and> model_version r' \<noteq> ''DEMO-MODE'')
   \<and> ((predict_proba m (track_features t) = Inr Unsized
         \<or> predict_proba m (track_features t) = Inr (Sized [])) \<and> length rnd = 10
        \<longrightarrow> (\<exists>r. predict_genres m rnd t = Inr r \<and> map snd (predictions r) = rnd
                  \<and> model_version r = ''SVM-v2.0''))"
proof (intro conjI impI)
  assume a: "TrackData_valid t \<and>
      (predict_proba m (track_features t) = Inl e
       \<or> predict_proba m (track_features t) = Inr (Sized (Num x # ps))
       \<or> (predict_proba m (track_features t) = Inr (Sized (p0 # qs)) \<and> isinstance_ndarray p0
            \<and> (\<exists>q \<in> set (p0 # qs). index1 q = Inl IndexError)))"
  then have v: "TrackData_valid t" by blast
  have "\<exists>e'. trained_predict m rnd t = Inl e'"
    using a trained_predict_scorer_raises trained_predict_scalar_first
      trained_predict_unindexable by blast
  then obtain e' where "trained_predict m rnd t = Inl e'" ..
  then have "predict_genres m rnd t = demo_predict t" by (rule predict_genres_fallback)
  with demo_predict_returns[OF v]
  show "\<exists>r. predict_genres m rnd t = Inr r \<and> demo_predict t = Inr r
              \<and> model_version r = ''DEMO-MODE''" by auto
next
  assume a: "trained_predict m rnd t = Inr r'"
  then show "predict_genres m rnd t = Inr r'" by (rule predict_genres_trained)
  from trained_predict_Inr[OF a] show "model_version r' = ''SVM-v2.0''" by blast
  then show "model_version r' \<noteq> ''DEMO-MODE''" by simp
next
  assume a: "(predict_proba m (track_features t) = Inr Unsized
         \<or> predict_proba m (track_features t) = Inr (Sized [])) \<and> length rnd = 10"
  then have "\<exists>r. trained_predict m rnd t = Inr r \<and> map snd (predictions r) = rnd
           \<and> model_version r = ''SVM-v2.0''"
    by (intro trained_predict_random) blast+
  then show "\<exists>r. predict_genres m rnd t = Inr r \<and> map snd (predictions r) = rnd
                  \<and> model_version r = ''SVM-v2.0''"
    using predict_genres_trained by blast
qed

theorem fallback_to_demo_on_scorer_failure_witness:
  "TrackData_valid example_track
   \<and> predict_proba raising_model (track_features example_track) = Inl ScorerError
   \<and> (\<exists>r. predict_genres raising_model example_rnd example_track = Inr r
          \<and> demo_predict example_track = Inr r \<and> model_version r = ''DEMO-MODE'')
   \<and> predict_proba initial_MODEL (track_features example_track) = Inl AttributeError
   \<and> (\<exists>r. predict_genres initial_MODEL example_rnd example_track = Inr r
          \<and> demo_predict example_track = Inr r \<and> model_version r = ''DEMO-MODE'')
   \<and> (\<exists>r. trained_predict list_row_model [] example_track = Inr r
          \<and> predict_genres list_row_model [] example_track = Inr r
          \<and> model_version r = ''SVM-v2.0'' \<and> model_version r \<noteq> ''DEMO-MODE'')
   \<and> predict_proba empty_output_model (track_features example_track) = Inr (Sized [])
   \<and> length example_rnd = 10
   \<and> (\<exists>r. predict_genres empty_output_model example_rnd example_track = Inr r
          \<and> map snd (predictions r) = example_rnd \<and> model_version r = ''SVM-v2.0'')"
proof -
  have v: "TrackData_valid example_track"
    by (simp add: TrackData_valid_def example_track_def)
  have p1: "predict_proba raising_model (track_features example_track) = Inl ScorerError"
    by (simp add: predict_proba_def raising_model_def)
  have p2: "predict_proba initial_MODEL (track_features example_track) = Inl AttributeError"
    by (simp add: predict_proba_def initial_MODEL_def)
  have p3: "predict_proba empty_output_model (track_features example_track) = Inr (Sized [])"
    by (simp add: predict_proba_def empty_output_model_def)
  have l: "length example_rnd = 10" by (simp add: example_rnd_def)
  note t = list_row_trained_response
  from fallback_to_demo_on_scorer_failure[of example_track raising_model ScorerError
      _ _ _ _ example_rnd] v p1
  have c1: "\<exists>r. predict_genres raising_model example_rnd example_track = Inr r
          \<and> demo_predict example_track = Inr r \<and> model_version r = ''DEMO-MODE''" by blast
  from fallback_to_demo_on_scorer_failure[of example_track initial_MODEL AttributeError
      _ _ _ _ example_rnd] v p2
  have c2: "\<exists>r. predict_genres initial_MODEL example_rnd example_track = Inr r
          \<and> demo_predict example_track = Inr r \<and> model_version r = ''DEMO-MODE''" by blast
  from fallback_to_demo_on_scorer_failure[of example_track list_row_model _ _ _ _ _ "[]"] t
  have c3: "\<exists>r. trained_predict list_row_model [] example_track = Inr r
          \<and> predict_genres list_row_model [] example_track = Inr r
          \<and> model_version r = ''SVM-v2.0'' \<and> model_version r \<noteq> ''DEMO-MODE''" by blast
  from fallback_to_demo_on_scorer_failure[of example_track empty_output_model _ _ _ _ _
      example_rnd] p3 l
  have c4: "\<exists>r. predict_genres empty_output_model example_rnd example_track = Inr r
          \<and> map snd (predictions r) = example_rnd \<and> model_version r = ''SVM-v2.0''" by blast
  from v p1 c1 p2 c2 c3 p3 l c4 show ?thesis by blast
qed

section \<open>Batch prediction\<close>

lemma predict_genres_returns:
  assumes "TrackData_valid t"
  shows "\<exists>r. predict_genres m rnd t = Inr r"
proof (cases "trained_predict m rnd t")
  case (Inl e)
  from predict_genres_fallback[OF Inl] demo_predict_returns[OF assms] show ?thesis by auto
next
  case (Inr r)
  from predict_genres_trained[OF Inr] show ?thesis ..
qed

lemma predict_genres_track:
  assumes "predict_genres m rnd t = Inr r"
  shows "track r = track_name t \<and> resp_artists r = artists t"
  using predict_genres_cases[OF assms] demo_predict_Inr trained_predict_Inr by blast

lemma batch_loop_Inr:
  assumes "batch_loop m rnds i ts preds tc = Inr (out, c)"
  shows "\<exists>rs. out = preds @ rs \<and> length rs = length ts
           \<and> (\<forall>j < length ts. predict_genres m (rnds (i + j)) (ts ! j) = Inr (rs ! j))
           \<and> c = tc + sum_list (map confidence rs)"
  using assms
proof (induction ts arbitrary: i preds tc)
  case Nil
  then show ?case by simp
next
  case (Cons t ts)
  from Cons.prems obtain resp where r: "predict_genres m (rnds i) t = Inr resp"
    by (cases "predict_genres m (rnds i) t") simp_all
  with Cons.prems have "batch_loop m rnds (Suc i) ts (preds @ [resp]) (tc + confidence resp)
      = Inr (out, c)" by simp
  from Cons.IH[OF this] obtain rs where o: "out = (preds @ [resp]) @ rs"
    and l: "length rs = length ts"
    and a: "\<forall>j < length ts. predict_genres m (rnds (Suc i + j)) (ts ! j) = Inr (rs ! j)"
    and s: "c = tc + confidence resp + sum_list (map confidence rs)" by blast
  have "\<forall>j < length (t # ts). predict_genres m (rnds (i + j)) ((t # ts) ! j) = Inr ((resp # rs) ! j)"
  proof (intro allI impI)
    fix j assume "j < length (t # ts)"
    then show "predict_genres m (rnds (i + j)) ((t # ts) ! j) = Inr ((resp # rs) ! j)"
      using r a by (cases j) simp_all
  qed
  then show ?case using o l s by (intro exI[of _ "resp # rs"]) simp
qed

lemma batch_loop_returns:
  assumes "\<forall>t \<in> set ts. \<forall>rnd. \<exists>r. predict_genres m rnd t = Inr r"
  shows "\<exists>out c. batch_loop m rnds i ts preds tc = Inr (out, c)"
  using assms
proof (induction ts arbitrary: i preds tc)
  case Nil
  then show ?case by simp
next
  case (Cons t ts)
  from Cons.prems have "\<forall>rnd. \<exists>r. predict_genres m rnd t = Inr r" by simp
  then obtain resp where r: "predict_genres m (rnds i) t = Inr resp" by blast
  from Cons.prems have "\<forall>t \<in> set ts. \<forall>rnd. \<exists>r. predict_genres m rnd t = Inr r" by simp
  from Cons.IH[OF this] show ?case using r by simp
qed


lemma example_batch_response:
  "predict_genres_batch list_row_model example_rnds example_batch =
     Inr \<lparr>batch_predictions =
        [\<lparr>track = ''Blinding Lights'', resp_artists = ''The Weeknd'',
          predictions = [(''pop'', 1/20), (''rock'', 3/5), (''hip_hop'', 1/10), (''jazz'', 1/20),
            (''electronic'', 1/20), (''classical'', 1/20), (''r_b'', 1/25), (''country'', 3/100),
            (''metal'', 1/50), (''folk'', 1/100)],
          top_genres = [''rock''], confidence = 1/10, model_version = ''SVM-v2.0''\<rparr>,
         \<lparr>track = ''Save Your Tears'', resp_artists = ''The Weeknd'',
          predictions = [(''pop'', 1/20), (''rock'', 3/5), (''hip_hop'', 1/10), (''jazz'', 1/20),
            (''electronic'', 1/20), (''classical'', 1/20), (''r_b'', 1/25), (''country'', 3/100),
            (''metal'', 1/50), (''folk'', 1/100)],
          top_genres = [''rock''], confidence = 1/10, model_version = ''SVM-v2.0''\<rparr>],
        total_tracks = 2, average_confidence = 1/10\<rparr>"
  by (simp add: predict_genres_batch_def example_batch_def example_rnds_def
      predict_genres_def list_row_model_def example_row_def trained_predict_def
      predict_proba_def adapt_probabilities_def predictions_dict_def GENRE_LABELS_def
      track_features_def np_mean_def example_track_def)

text \<open>
  Claim C8. For every list of tracks, the batch prediction returns the per-track
  responses in the order of the inputs (the response at each position is the one
  \<^verbatim>\<open>predict_genres\<close> returns for the track at that position), its
  \<^verbatim>\<open>total_tracks\<close> is the number of tracks and its \<^verbatim>\<open>average_confidence\<close> is the
  arithmetic mean of the per-track confidences. For the empty list it returns no
  predictions, \<^verbatim>\<open>total_tracks = 0\<close> and \<^verbatim>\<open>average_confidence = 0.0\<close>. The batch
  returns whenever every track lies within the declared ranges.
\<close>

theorem batch_preserves_order_and_averages:
  "predict_genres_batch m rnds [] =
     Inr \<lparr>batch_predictions = [], total_tracks = 0, average_confidence = 0\<rparr>
   \<and> ((\<forall>t \<in> set tracks. TrackData_valid t) \<longrightarrow>
        (\<exists>b. predict_genres_batch m rnds tracks = Inr b))
   \<and> (predict_genres_batch m rnds tracks = Inr b \<longrightarrow>
        length (batch_predictions b) = length tracks
        \<and> total_tracks b = length tracks
        \<and> (\<forall>i < length tracks.
              predict_genres m (rnds i) (tracks ! i) = Inr (batch_predictions b ! i))
        \<and> map track (batch_predictions b) = map track_name tracks
        \<and> average_confidence b =
            (if tracks = [] then 0
             else sum_list (map confidence (batch_predictions b)) / real (length tracks)))"
proof (intro conjI impI)
  show "predict_genres_batch m rnds [] =
     Inr \<lparr>batch_predictions = [], total_tracks = 0, average_confidence = 0\<rparr>"
    by (simp add: predict_genres_batch_def)
next
  assume "\<forall>t \<in> set tracks. TrackData_valid t"
  then have "\<forall>t \<in> set tracks. \<forall>rnd. \<exists>r. predict_genres m rnd t = Inr r"
    using predict_genres_returns by blast
  from batch_loop_returns[OF this, of rnds 0 "[]" 0]
  obtain out c where "batch_loop m rnds 0 tracks [] 0 = Inr (out, c)" by blast
  then show "\<exists>b. predict_genres_batch m rnds tracks = Inr b"
    by (simp add: predict_genres_batch_def)
next
  assume a: "predict_genres_batch m rnds tracks = Inr b"
  then obtain out c where l: "batch_loop m rnds 0 tracks [] 0 = Inr (out, c)"
    unfolding predict_genres_batch_def
    by (cases "batch_loop m rnds 0 tracks [] 0") auto
  from a have b: "b = \<lparr>batch_predictions = out, total_tracks = length out,
       average_confidence = (if out \<noteq> [] then c / real (length out) else 0)\<rparr>"
    unfolding predict_genres_batch_def l by simp
  from batch_loop_Inr[OF l] have len: "length out = length tracks"
    and each: "\<forall>j < length tracks. predict_genres m (rnds j) (tracks ! j) = Inr (out ! j)"
    and c: "c = sum_list (map confidence out)" by auto
  show "length (batch_predictions b) = length tracks" unfolding b using len by simp
  show "total_tracks b = length tracks" unfolding b using len by simp
  show "\<forall>i < length tracks.
          predict_genres m (rnds i) (tracks ! i) = Inr (batch_predictions b ! i)"
    unfolding b using each by simp
  have "map track out = map track_name tracks"
  proof (rule nth_equalityI)
    show "length (map track out) = length (map track_name tracks)" using len by simp
    fix i assume "i < length (map track out)"
    then have i: "i < length tracks" using len by simp
    from each i have "predict_genres m (rnds i) (tracks ! i) = Inr (out ! i)" by blast
    from predict_genres_track[OF this] show "map track out ! i = map track_name tracks ! i"
      using i len by simp
  qed
  then show "map track (batch_predictions b) = map track_name tracks" unfolding b by simp
  show "average_confidence b =
            (if tracks = [] then 0
             else sum_list (map confidence (batch_predictions b)) / real (length tracks))"
    unfolding b using len c by auto
qed

theorem batch_preserves_order_and_averages_witness:
  "list_all TrackData_valid example_batch
   \<and> (\<exists>b. predict_genres_batch list_row_model example_rnds example_batch = Inr b
         \<and> length (batch_predictions b) = 2
         \<and> total_tracks b = 2
         \<and> map track (batch_predictions b) = [''Blinding Lights'', ''Save Your Tears'']
         \<and> average_confidence b = sum_list (map confidence (batch_predictions b)) / 2
         \<and> average_confidence b = 1/10)"
proof -
  have v: "\<forall>t \<in> set example_batch. TrackData_valid t"
    by (simp add: example_batch_def TrackData_valid_def example_track_def)
  from batch_preserves_order_and_averages[of list_row_model example_rnds example_batch] v
  obtain b where b: "predict_genres_batch list_row_model example_rnds example_batch = Inr b"
    by blast
  from batch_preserves_order_and_averages[of list_row_model example_rnds example_batch b] b
  have p: "length (batch_predictions b) = length example_batch
        \<and> total_tracks b = length example_batch
        \<and> map track (batch_predictions b) = map track_name example_batch
        \<and> average_confidence b =
            (if example_batch = [] then 0
             else sum_list (map confidence (batch_predictions b)) / real (length example_batch))"
    by blast
  have e: "length example_batch = 2" "example_batch \<noteq> []"
    "map track_name example_batch = [''Blinding Lights'', ''Save Your Tears'']"
    by (simp_all add: example_batch_def example_track_def)
  have a: "average_confidence b = 1/10"
    using b unfolding example_batch_response by auto
  have "list_all TrackData_valid example_batch" using v unfolding list_all_iff .
  then show ?thesis using b p e a by auto
qed

end
